theory Spec2Isabelle
  imports
    Main
    "HOL-Library.Sublist"
    "HOL-Library.AList"
    "HOL-Library.Char_ord"
    "HOL-Library.List_Lexorder"
    "HOL-Library.Option_ord"
begin

section \<open>Data model of lib/tree.js\<close>

text \<open>
  A document of the collection, restricted to the fields the plugin adds or reads:
  \<^verbatim>\<open>_id\<close>, \<^verbatim>\<open>parent\<close> and \<^verbatim>\<open>ancestry\<close>.  Identifiers are kept in their string form (the
  code concatenates them into \<^verbatim>\<open>ancestry\<close>).  \<open>None\<close> stands for a field that is absent
  (\<^verbatim>\<open>undefined\<close>), as \<^verbatim>\<open>parent\<close> and \<^verbatim>\<open>ancestry\<close> of a root are.
\<close>

record node =
  node_id :: string
  parent :: "string option"
  ancestry :: "string option"

text \<open>JavaScript truthiness of a string-valued field: absent and \<^verbatim>\<open>''\<close> are falsy.\<close>

definition truthy :: "string option \<Rightarrow> bool" where
  "truthy v = (case v of None \<Rightarrow> False | Some s \<Rightarrow> s \<noteq> [])"

text \<open>String coercion in \<^verbatim>\<open>'^' + x + ...\<close>: an absent field prints as \<^verbatim>\<open>undefined\<close>.\<close>

definition js_str :: "string option \<Rightarrow> string" where
  "js_str v = (case v of None \<Rightarrow> ''undefined'' | Some s \<Rightarrow> s)"

datatype js_error = StoreError string | TypeError

text \<open>
  How an asynchronous operation ends: \<open>Next x\<close> is \<^verbatim>\<open>next(null, x)\<close>, \<open>NextErr e\<close> is
  \<^verbatim>\<open>next(e)\<close>, and \<open>Thrown e\<close> is an exception raised inside a callback, after which the
  completion callback is never invoked.
\<close>

datatype 'a outcome = Next 'a | NextErr js_error | Thrown js_error

subsection \<open>Plugin options (lines 199--204)\<close>

record tree_options =
  opt_ancestrySeparator :: "string option"
  opt_onDelete :: "string option"
  opt_numWorkers :: "nat option"
  opt_wrapChildrenTree :: "bool option"

definition ancestrySeparator :: "tree_options option \<Rightarrow> string" where
  "ancestrySeparator options =
     (case options of None \<Rightarrow> ''/''
      | Some opts \<Rightarrow> (if truthy (opt_ancestrySeparator opts)
                      then the (opt_ancestrySeparator opts) else ''/''))"

definition onDelete :: "tree_options option \<Rightarrow> string" where
  "onDelete options =
     (case options of None \<Rightarrow> ''DELETE''
      | Some opts \<Rightarrow> (if truthy (opt_onDelete opts)
                      then the (opt_onDelete opts) else ''DELETE''))"

definition numWorkers :: "tree_options option \<Rightarrow> nat" where
  "numWorkers options =
     (case options of None \<Rightarrow> 5
      | Some opts \<Rightarrow> (case opt_numWorkers opts of None \<Rightarrow> 5
                      | Some n \<Rightarrow> if n = 0 then 5 else n))"

definition ancestrySeparatorRegex :: "tree_options option \<Rightarrow> string" where
  "ancestrySeparatorRegex options = ''['' @ ancestrySeparator options @ '']''"

section \<open>The external store\<close>

subsection \<open>Regular expressions of the shape the plugin builds\<close>

text \<open>
  The patterns handed to \<^verbatim>\<open>$regex\<close> are an optional leading \<^verbatim>\<open>^\<close>, literal text (an
  ancestry or an identifier) and the bracket class \<^verbatim>\<open>[sep]\<close>.  The matcher below reads
  exactly this fragment: every character outside a bracket class is taken literally and
  a bracket class is the plain set of its characters.  It agrees with the store's engine
  when the identifiers hold no regex metacharacter and the separator is a character
  without a meaning of its own inside a class (as the default \<^verbatim>\<open>/\<close> is); for other
  identifiers or separators the engine may match differently.
\<close>

datatype atom = Lit char | Class "char list"

fun parse_atoms :: "string \<Rightarrow> atom list"
  and parse_class :: "char list \<Rightarrow> string \<Rightarrow> atom list" where
  "parse_atoms [] = []"
| "parse_atoms (c # cs) =
     (if c = CHR ''['' then parse_class [] cs else Lit c # parse_atoms cs)"
| "parse_class acc [] = [Class acc]"
| "parse_class acc (c # cs) =
     (if c = CHR '']'' then Class acc # parse_atoms cs else parse_class (acc @ [c]) cs)"

fun match_atoms :: "atom list \<Rightarrow> string \<Rightarrow> bool" where
  "match_atoms [] s = True"
| "match_atoms (a # as) [] = False"
| "match_atoms (Lit c # as) (x # xs) = (c = x \<and> match_atoms as xs)"
| "match_atoms (Class cs # as) (x # xs) = (x \<in> set cs \<and> match_atoms as xs)"

fun search_atoms :: "atom list \<Rightarrow> string \<Rightarrow> bool" where
  "search_atoms as [] = match_atoms as []"
| "search_atoms as (x # xs) = (match_atoms as (x # xs) \<or> search_atoms as xs)"

definition regex_test :: "string \<Rightarrow> string \<Rightarrow> bool" where
  "regex_test pat s =
     (case pat of
        [] \<Rightarrow> True
      | c # p \<Rightarrow> if c = CHR ''^'' then match_atoms (parse_atoms p) s
                 else search_atoms (parse_atoms pat) s)"

subsection \<open>Documents, faults and the driver's primitives\<close>

text \<open>
  The collection is a list of documents.  Each call of a store primitive consumes the
  head of the fault schedule; \<open>Some e\<close> there makes that call fail with \<open>e\<close>.  An empty
  schedule is a store that never fails.
\<close>

record store =
  docs :: "node list"
  faults :: "js_error option list"

definition take_fault :: "store \<Rightarrow> js_error option \<times> store" where
  "take_fault s =
     (case faults s of [] \<Rightarrow> (None, s) | f # fs \<Rightarrow> (f, s\<lparr>faults := fs\<rparr>))"

text \<open>\<^verbatim>\<open>collection.findOne({ _id: id }, cb)\<close>: \<open>cb(err, doc)\<close>, \<open>doc\<close> null when none matches.\<close>

definition findOne :: "string option \<Rightarrow> store \<Rightarrow> js_error option \<times> node option \<times> store" where
  "findOne ident s =
     (case take_fault s of
        (Some e, s') \<Rightarrow> (Some e, None, s')
      | (None, s') \<Rightarrow>
          (None, List.find (\<lambda>d. Some (node_id d) = ident) (docs s'), s'))"

text \<open>\<^verbatim>\<open>collection.find({ ancestry: { $regex: pat } }, cb)\<close>: the cursor is the list of matches.\<close>

definition find_ancestry_regex ::
  "string \<Rightarrow> store \<Rightarrow> js_error option \<times> node list option \<times> store" where
  "find_ancestry_regex pat s =
     (case take_fault s of
        (Some e, s') \<Rightarrow> (Some e, None, s')
      | (None, s') \<Rightarrow>
          (None,
           Some (filter (\<lambda>d. case ancestry d of None \<Rightarrow> False | Some a \<Rightarrow> regex_test pat a)
                   (docs s')),
           s'))"

text \<open>\<^verbatim>\<open>collection.find({ parent: id }, cb)\<close>.\<close>

definition find_parent :: "string \<Rightarrow> store \<Rightarrow> js_error option \<times> node list option \<times> store" where
  "find_parent ident s =
     (case take_fault s of
        (Some e, s') \<Rightarrow> (Some e, None, s')
      | (None, s') \<Rightarrow> (None, Some (filter (\<lambda>d. parent d = Some ident) (docs s')), s'))"

text \<open>\<^verbatim>\<open>collection.update({ _id: id }, { $set: { ancestry: v } }, done)\<close>.\<close>

definition update_ancestry :: "string \<Rightarrow> string \<Rightarrow> store \<Rightarrow> unit outcome \<times> store" where
  "update_ancestry ident v s =
     (case take_fault s of
        (Some e, s') \<Rightarrow> (NextErr e, s')
      | (None, s') \<Rightarrow>
          (Next (),
           s'\<lparr>docs := map (\<lambda>d. if node_id d = ident then d\<lparr>ancestry := Some v\<rparr> else d)
                         (docs s')\<rparr>))"

text \<open>\<^verbatim>\<open>collection.update({ _id: id }, { $set: { parent: v } }, done)\<close>.\<close>

definition update_parent :: "string \<Rightarrow> string option \<Rightarrow> store \<Rightarrow> unit outcome \<times> store" where
  "update_parent ident v s =
     (case take_fault s of
        (Some e, s') \<Rightarrow> (NextErr e, s')
      | (None, s') \<Rightarrow>
          (Next (),
           s'\<lparr>docs := map (\<lambda>d. if node_id d = ident then d\<lparr>parent := v\<rparr> else d)
                         (docs s')\<rparr>))"

text \<open>\<^verbatim>\<open>collection.remove({ ancestry: { $regex: pat } }, next)\<close>.\<close>

definition remove_ancestry_regex :: "string \<Rightarrow> store \<Rightarrow> unit outcome \<times> store" where
  "remove_ancestry_regex pat s =
     (case take_fault s of
        (Some e, s') \<Rightarrow> (NextErr e, s')
      | (None, s') \<Rightarrow>
          (Next (),
           s'\<lparr>docs := filter (\<lambda>d. case ancestry d of None \<Rightarrow> True
                                    | Some a \<Rightarrow> \<not> regex_test pat a)
                            (docs s')\<rparr>))"

text \<open>
  The package \<^verbatim>\<open>stream-worker\<close>: the worker runs on every item of the stream, also
  after an item has failed, and the completion callback fires once, with the first error
  or with none.  An exception raised by the worker reaches the completion callback as an
  error.  Items are taken one at a time, in cursor order; the bound \<^verbatim>\<open>numWorkers\<close> on the
  calls in flight is not modelled.
\<close>

fun streamWorker ::
  "(node \<Rightarrow> store \<Rightarrow> unit outcome \<times> store) \<Rightarrow> node list \<Rightarrow> store \<Rightarrow> unit outcome \<times> store" where
  "streamWorker worker [] s = (Next (), s)"
| "streamWorker worker (d # ds) s =
     (case worker d s of
        (Next u, s') \<Rightarrow> streamWorker worker ds s'
      | (NextErr e, s') \<Rightarrow> (NextErr e, snd (streamWorker worker ds s'))
      | (Thrown e, s') \<Rightarrow> (NextErr e, snd (streamWorker worker ds s')))"

section \<open>String helpers of the language\<close>

text \<open>\<^verbatim>\<open>s.split(sep)\<close> for a string separator; an empty separator splits into characters.\<close>

function split_from :: "string \<Rightarrow> string \<Rightarrow> string \<Rightarrow> string list" where
  "split_from sep cur s =
     (if s = [] then [cur]
      else if sep \<noteq> [] \<and> prefix sep s then cur # split_from sep [] (drop (length sep) s)
      else split_from sep (cur @ [hd s]) (tl s))"
  by pat_completeness auto
termination
  by (relation "measure (\<lambda>(sep, cur, s). length s)") auto

declare split_from.simps [simp del]

definition split_js :: "string \<Rightarrow> string \<Rightarrow> string list" where
  "split_js sep s = (if sep = [] then map (\<lambda>c. [c]) s else split_from sep [] s)"

text \<open>\<^verbatim>\<open>s.replace(pat, rep)\<close> with a string pattern: only the first occurrence is replaced.\<close>

fun replace_first :: "string \<Rightarrow> string \<Rightarrow> string \<Rightarrow> string" where
  "replace_first pat rep [] = (if pat = [] then rep else [])"
| "replace_first pat rep (c # cs) =
     (if prefix pat (c # cs) then rep @ drop (length pat) (c # cs)
      else c # replace_first pat rep cs)"

section \<open>Pre-save middleware (lines 233--279)\<close>

text \<open>
  \<open>isNew\<close> and \<open>isParentChange\<close> are \<^verbatim>\<open>this.isNew\<close> and \<^verbatim>\<open>this.isModified('parent')\<close>.
  The result carries the document as the hook leaves it and the store after the hook's
  own writes.
\<close>

definition streamOnData_save ::
  "string option \<Rightarrow> node \<Rightarrow> node \<Rightarrow> store \<Rightarrow> unit outcome \<times> store" where
  "streamOnData_save previousPath self doc s =
     (case previousPath of
        None \<Rightarrow> (Thrown TypeError, s)
      | Some pp \<Rightarrow>
          (case ancestry doc of
             None \<Rightarrow> (Thrown TypeError, s)
           | Some a \<Rightarrow>
               (let newPath = js_str (ancestry self) @ drop (length pp) a
                in update_ancestry (node_id doc) newPath s)))"

definition preSave ::
  "tree_options option \<Rightarrow> bool \<Rightarrow> bool \<Rightarrow> node \<Rightarrow> store \<Rightarrow> unit outcome \<times> node \<times> store" where
  "preSave options isNew isParentChange self s =
     (if isNew \<or> isParentChange then
        if \<not> truthy (parent self) then (Next (), self, s)
        else
          (case findOne (parent self) s of
             (Some err, _, s1) \<Rightarrow> (NextErr err, self, s1)
           | (None, None, s1) \<Rightarrow> (Thrown TypeError, self, s1)
           | (None, Some doc, s1) \<Rightarrow>
               (let previousPath = ancestry self;
                    self' =
                      (if truthy (ancestry doc)
                       then self\<lparr>ancestry :=
                              Some (js_str (ancestry doc) @ ancestrySeparator options @ node_id doc)\<rparr>
                       else self\<lparr>ancestry := Some (node_id doc)\<rparr>)
                in if isParentChange then
                     (case find_ancestry_regex
                             (''^'' @ js_str previousPath @ ancestrySeparatorRegex options) s1 of
                        (Some err, _, s2) \<Rightarrow> (NextErr err, self', s2)
                      | (None, None, s2) \<Rightarrow> (Thrown TypeError, self', s2)
                      | (None, Some cursor, s2) \<Rightarrow>
                          (case streamWorker (streamOnData_save previousPath self') cursor s2 of
                             (r, s3) \<Rightarrow> (r, self', s3)))
                   else (Next (), self', s1)))
      else (Next (), self, s))"

text \<open>
  The framework's \<^verbatim>\<open>save\<close>: the hook runs first, and only \<^verbatim>\<open>next()\<close> without an error
  lets the document itself be written (inserted when new, else its fields replaced).
\<close>

definition persist :: "bool \<Rightarrow> node \<Rightarrow> store \<Rightarrow> unit outcome \<times> store" where
  "persist isNew self s =
     (case take_fault s of
        (Some e, s') \<Rightarrow> (NextErr e, s')
      | (None, s') \<Rightarrow>
          (Next (),
           s'\<lparr>docs := (if isNew then docs s' @ [self]
                        else map (\<lambda>d. if node_id d = node_id self then self else d) (docs s'))\<rparr>))"

definition save ::
  "tree_options option \<Rightarrow> bool \<Rightarrow> bool \<Rightarrow> node \<Rightarrow> store \<Rightarrow> unit outcome \<times> node \<times> store" where
  "save options isNew isParentChange self s =
     (case preSave options isNew isParentChange self s of
        (Next u, self', s') \<Rightarrow> (case persist isNew self' s' of (r, s'') \<Rightarrow> (r, self', s''))
      | (NextErr e, self', s') \<Rightarrow> (NextErr e, self', s')
      | (Thrown e, self', s') \<Rightarrow> (Thrown e, self', s'))"

section \<open>Pre-remove middleware (lines 287--330)\<close>

definition streamOnData_remove :: "string option \<Rightarrow> node \<Rightarrow> store \<Rightarrow> unit outcome \<times> store" where
  "streamOnData_remove newParent doc s = update_parent (node_id doc) newParent s"

definition subStreamOnData ::
  "tree_options option \<Rightarrow> string \<Rightarrow> node \<Rightarrow> store \<Rightarrow> unit outcome \<times> store" where
  "subStreamOnData options previousParent doc s =
     (case ancestry doc of
        None \<Rightarrow> (Thrown TypeError, s)
      | Some a \<Rightarrow>
          (let newPath = replace_first (previousParent @ ancestrySeparator options) [] a
           in update_ancestry (node_id doc) newPath s))"

definition streamOnClose ::
  "tree_options option \<Rightarrow> string \<Rightarrow> unit outcome \<times> store \<Rightarrow> unit outcome \<times> store" where
  "streamOnClose options previousParent r =
     (case r of
        (NextErr err, s) \<Rightarrow> (NextErr err, s)
      | (Thrown e, s) \<Rightarrow> (Thrown e, s)
      | (Next u, s) \<Rightarrow>
          (case find_ancestry_regex (previousParent @ ancestrySeparatorRegex options) s of
             (_, None, s') \<Rightarrow> (Thrown TypeError, s')
           | (_, Some cursor, s') \<Rightarrow>
               streamWorker (subStreamOnData options previousParent) cursor s'))"

definition preRemove :: "tree_options option \<Rightarrow> node \<Rightarrow> store \<Rightarrow> unit outcome \<times> store" where
  "preRemove options self s =
     (if \<not> truthy (ancestry self) then (Next (), s)
      else if onDelete options = ''DELETE'' then
        remove_ancestry_regex (''^'' @ js_str (ancestry self) @ ancestrySeparatorRegex options) s
      else
        (let newParent = parent self;
             previousParent = node_id self
         in case find_parent previousParent s of
              (Some err, _, s1) \<Rightarrow> (NextErr err, s1)
            | (None, None, s1) \<Rightarrow> (Thrown TypeError, s1)
            | (None, Some cursor, s1) \<Rightarrow>
                streamOnClose options previousParent
                  (streamWorker (streamOnData_remove newParent) cursor s1)))"

text \<open>
  The framework's \<^verbatim>\<open>remove\<close>: the hook runs first, and only \<^verbatim>\<open>next()\<close> without an error
  lets the document itself be deleted.
\<close>

definition delete_doc :: "node \<Rightarrow> store \<Rightarrow> unit outcome \<times> store" where
  "delete_doc self s =
     (case take_fault s of
        (Some e, s') \<Rightarrow> (NextErr e, s')
      | (None, s') \<Rightarrow> (Next (), s'\<lparr>docs := filter (\<lambda>d. node_id d \<noteq> node_id self) (docs s')\<rparr>))"

definition remove_node :: "tree_options option \<Rightarrow> node \<Rightarrow> store \<Rightarrow> unit outcome \<times> store" where
  "remove_node options self s =
     (case preRemove options self s of
        (Next u, s') \<Rightarrow> delete_doc self s'
      | (NextErr e, s') \<Rightarrow> (NextErr e, s')
      | (Thrown e, s') \<Rightarrow> (Thrown e, s'))"

section \<open>Query surface (lines 343--455)\<close>

text \<open>
  Filter objects as the code builds them: a JavaScript object is an association list in
  insertion order; assigning a property replaces the value in place or appends the key.
\<close>

datatype jsval =
    JUndefined
  | JNull
  | JBool bool
  | JNum int
  | JStr string
  | JArr "jsval list"
  | JObj "(string \<times> jsval) list"

type_synonym jsobj = "(string \<times> jsval) list"

fun js_truthy :: "jsval \<Rightarrow> bool" where
  "js_truthy JUndefined = False"
| "js_truthy JNull = False"
| "js_truthy (JBool b) = b"
| "js_truthy (JNum n) = (n \<noteq> 0)"
| "js_truthy (JStr s) = (s \<noteq> [])"
| "js_truthy (JArr xs) = True"
| "js_truthy (JObj kvs) = True"

text \<open>\<^verbatim>\<open>obj[k] = v\<close> on a truthy value: a primitive silently ignores the assignment.\<close>

fun set_prop :: "jsval \<Rightarrow> string \<Rightarrow> jsval \<Rightarrow> jsval" where
  "set_prop (JObj kvs) k v = JObj (AList.update k v kvs)"
| "set_prop x k v = x"

definition get_prop :: "jsobj \<Rightarrow> string \<Rightarrow> jsval" where
  "get_prop obj k = (case map_of obj k of None \<Rightarrow> JUndefined | Some v \<Rightarrow> v)"

text \<open>
  \<^verbatim>\<open>getChildren\<close> after its argument normalisation (lines 380--397): \<open>filters\<close> and
  \<open>recursive\<close> are \<open>None\<close> when the caller left them out.  The result is the filter object
  handed to \<^verbatim>\<open>find\<close>.
\<close>

definition getChildren_filters ::
  "tree_options option \<Rightarrow> node \<Rightarrow> jsobj option \<Rightarrow> bool option \<Rightarrow> jsobj" where
  "getChildren_filters options self filters0 recursive0 =
     (let filters = (case filters0 of None \<Rightarrow> [] | Some f \<Rightarrow> f);
          recursive = (case recursive0 of None \<Rightarrow> False | Some b \<Rightarrow> b)
      in if recursive then
           (if js_truthy (get_prop filters ''$query'') then
              AList.update ''$query''
                (set_prop (get_prop filters ''$query'') ''ancestry''
                   (JObj [(''$regex'',
                      JStr (''^'' @ js_str (ancestry self) @ ancestrySeparatorRegex options))]))
                filters
            else
              AList.update ''ancestry''
                (JObj [(''$regex'',
                   JStr (''^'' @ js_str (ancestry self) @ ancestrySeparatorRegex options))])
                filters)
         else
           (if js_truthy (get_prop filters ''$query'') then
              AList.update ''$query''
                (set_prop (get_prop filters ''$query'') ''parent'' (JStr (node_id self)))
                filters
            else AList.update ''parent'' (JStr (node_id self)) filters))"

text \<open>\<^verbatim>\<open>getAncestors\<close> (lines 441--452): the id list and the filter handed to \<^verbatim>\<open>find\<close>.\<close>

definition getAncestors_ids :: "tree_options option \<Rightarrow> node \<Rightarrow> string list" where
  "getAncestors_ids options self =
     (if truthy (ancestry self)
      then butlast (split_js (ancestrySeparator options) (the (ancestry self)))
      else [])"

definition getAncestors_filters ::
  "tree_options option \<Rightarrow> node \<Rightarrow> jsobj option \<Rightarrow> jsobj" where
  "getAncestors_filters options self filters0 =
     (let filters = (case filters0 of None \<Rightarrow> [] | Some f \<Rightarrow> f);
          ids = getAncestors_ids options self
      in if js_truthy (get_prop filters ''$query'') then
           AList.update ''$query''
             (set_prop (get_prop filters ''$query'') ''_id'' (JObj [(''$in'', JArr (map JStr ids))]))
             filters
         else AList.update ''_id'' (JObj [(''$in'', JArr (map JStr ids))]) filters)"

subsection \<open>What the store makes of a filter object\<close>

definition field_of :: "node \<Rightarrow> string \<Rightarrow> jsval" where
  "field_of d k =
     (if k = ''_id'' then JStr (node_id d)
      else if k = ''parent'' then (case parent d of None \<Rightarrow> JNull | Some p \<Rightarrow> JStr p)
      else if k = ''ancestry'' then (case ancestry d of None \<Rightarrow> JNull | Some a \<Rightarrow> JStr a)
      else JUndefined)"

definition clause_ok :: "jsval \<Rightarrow> jsval \<Rightarrow> bool" where
  "clause_ok v c =
     (case c of
        JObj kvs \<Rightarrow>
          (case kvs of
             [(opr, arg)] \<Rightarrow>
               if opr = ''$regex'' then
                 (case v of
                    JStr s \<Rightarrow> (case arg of JStr pat \<Rightarrow> regex_test pat s | _ \<Rightarrow> False)
                  | _ \<Rightarrow> False)
               else if opr = ''$in'' then
                 (case arg of JArr xs \<Rightarrow> List.member xs v | _ \<Rightarrow> False)
               else v = c
           | _ \<Rightarrow> v = c)
      | JNull \<Rightarrow> v = JNull \<or> v = JUndefined
      | _ \<Rightarrow> v = c)"

definition matches :: "jsobj \<Rightarrow> node \<Rightarrow> bool" where
  "matches filters d =
     (case get_prop filters ''$query'' of
        JObj q \<Rightarrow> list_all (\<lambda>kc. clause_ok (field_of d (fst kc)) (snd kc)) q
      | _ \<Rightarrow> list_all (\<lambda>kc. clause_ok (field_of d (fst kc)) (snd kc)) filters)"

text \<open>
  \<^verbatim>\<open>Model.find(filters, fields, options, cb)\<close>; \<open>by_ancestry\<close> is \<^verbatim>\<open>options.sort.ancestry = 1\<close>:
  ascending, an absent ancestry first, documents with equal ancestry in collection order.
\<close>

definition model_find ::
  "jsobj \<Rightarrow> bool \<Rightarrow> store \<Rightarrow> js_error option \<times> node list \<times> store" where
  "model_find filters by_ancestry s =
     (case take_fault s of
        (Some e, s') \<Rightarrow> (Some e, [], s')
      | (None, s') \<Rightarrow>
          (None,
           (if by_ancestry then sort_key ancestry (filter (matches filters) (docs s'))
            else filter (matches filters) (docs s')),
           s'))"

definition getChildren ::
  "tree_options option \<Rightarrow> node \<Rightarrow> jsobj option \<Rightarrow> bool option \<Rightarrow> store \<Rightarrow>
     node list outcome \<times> store" where
  "getChildren options self filters recursive s =
     (case model_find (getChildren_filters options self filters recursive) False s of
        (Some e, _, s') \<Rightarrow> (NextErr e, s')
      | (None, rs, s') \<Rightarrow> (Next rs, s'))"

definition getAncestors ::
  "tree_options option \<Rightarrow> node \<Rightarrow> jsobj option \<Rightarrow> store \<Rightarrow> node list outcome \<times> store" where
  "getAncestors options self filters s =
     (case model_find (getAncestors_filters options self filters) False s of
        (Some e, _, s') \<Rightarrow> (NextErr e, s')
      | (None, rs, s') \<Rightarrow> (Next rs, s'))"

section \<open>Tree assembly (lines 472--617)\<close>

definition getLevel :: "tree_options option \<Rightarrow> string option \<Rightarrow> int" where
  "getLevel options anc =
     (if truthy anc then int (length (split_js (ancestrySeparator options) (the anc))) else 0)"

definition virtualPropLevel :: "tree_options option \<Rightarrow> node \<Rightarrow> int" where
  "virtualPropLevel options self =
     (if truthy (ancestry self)
      then int (length (split_js (ancestrySeparator options) (the (ancestry self))))
      else 0)"

text \<open>An output entry: the document and its \<^verbatim>\<open>children\<close> property, absent when never set.\<close>

datatype tree = Tree (tree_node: node) (children: "tree list option")

text \<open>
  \<^verbatim>\<open>createChildren(arr, node, level)\<close>; the array is updated in place in the source and
  returned here.  An absent array (\<^verbatim>\<open>myNode.children\<close> never set) makes \<^verbatim>\<open>arr.push\<close> and
  \<^verbatim>\<open>arr.length\<close> raise.
\<close>

function createChildren ::
  "int \<Rightarrow> bool \<Rightarrow> tree list option \<Rightarrow> node \<Rightarrow> int \<Rightarrow> js_error + tree list" where
  "createChildren minLevel allowEmptyChildren arr nd level =
     (case arr of
        None \<Rightarrow> Inl TypeError
      | Some xs \<Rightarrow>
          if level = minLevel then
            Inr (xs @ [Tree nd (if allowEmptyChildren then Some [] else None)])
          else if xs = [] then Inr xs
          else
            (case last xs of
               Tree n ch \<Rightarrow>
                 (case createChildren minLevel allowEmptyChildren ch nd (level - 1) of
                    Inl e \<Rightarrow> Inl e
                  | Inr ch' \<Rightarrow> Inr (butlast xs @ [Tree n (Some ch')]))))"
  by pat_completeness auto
termination
proof (relation "measure (\<lambda>(minLevel, allowEmptyChildren, arr, nd, level).
        size_option (size_list size) arr)", goal_cases)
  case 1
  show ?case by simp
next
  case (2 minLevel allowEmptyChildren arr nd level xs n ch)
  from 2 have ne: "xs \<noteq> []" and l: "last xs = Tree n ch" by simp_all
  from ne have "last xs \<in> set xs" by (rule last_in_set)
  then have "size (last xs) \<le> size_list size xs"
    by (simp add: size_list_estimation')
  moreover have "size_option (size_list size) ch < size (last xs)"
    by (simp add: l)
  ultimately show ?case using 2(1) by simp
qed

declare createChildren.simps [simp del]

fun build_results ::
  "tree_options option \<Rightarrow> int \<Rightarrow> bool \<Rightarrow> tree list \<Rightarrow> node list \<Rightarrow> js_error + tree list" where
  "build_results options minLevel allowEmptyChildren finalResults [] = Inr finalResults"
| "build_results options minLevel allowEmptyChildren finalResults (r # rs) =
     (case createChildren minLevel allowEmptyChildren (Some finalResults) r
             (getLevel options (ancestry r)) of
        Inl e \<Rightarrow> Inl e
      | Inr finalResults' \<Rightarrow>
          build_results options minLevel allowEmptyChildren finalResults' rs)"

record tree_args =
  args_filters :: "jsobj option"
  args_minLevel :: "int option"
  args_recursive :: "bool option"
  args_allowEmptyChildren :: "bool option"

definition default_args :: tree_args where
  "default_args =
     \<lparr>args_filters = None, args_minLevel = None, args_recursive = None,
      args_allowEmptyChildren = None\<rparr>"

text \<open>Lines 584--592: the level at which entries become top-level entries.\<close>

definition effective_minLevel ::
  "tree_options option \<Rightarrow> node option \<Rightarrow> tree_args \<Rightarrow> int" where
  "effective_minLevel options root args =
     (let minLevel = (case args_minLevel args of None \<Rightarrow> 1 | Some m \<Rightarrow> if m = 0 then 1 else m);
          rootLevel = (case root of None \<Rightarrow> 1 | Some r \<Rightarrow> getLevel options (ancestry r) + 1)
      in if minLevel < rootLevel then rootLevel else minLevel)"

text \<open>Lines 503--520: the filter object handed to \<^verbatim>\<open>find\<close>.\<close>

definition getChildrenTree_filters ::
  "tree_options option \<Rightarrow> node option \<Rightarrow> tree_args \<Rightarrow> jsobj" where
  "getChildrenTree_filters options root args =
     (let filters = (case args_filters args of None \<Rightarrow> [] | Some f \<Rightarrow> f);
          recursive = (case args_recursive args of None \<Rightarrow> True | Some b \<Rightarrow> b)
      in if recursive then
           (let filters1 =
                  (case root of
                     None \<Rightarrow> filters
                   | Some r \<Rightarrow>
                       AList.update ''ancestry''
                         (JObj [(''$regex'',
                            JStr (''^'' @ js_str (ancestry r) @ ancestrySeparatorRegex options))])
                         filters)
            in if map_of filters1 ''parent'' = Some JNull
               then AList.delete ''parent'' filters1 else filters1)
         else
           (case root of
              Some r \<Rightarrow> AList.update ''parent'' (JStr (node_id r)) filters
            | None \<Rightarrow> AList.update ''parent'' JNull filters))"

text \<open>
  \<^verbatim>\<open>getChildrenTree(root, args, next)\<close> for a call that passes a callback; \<^verbatim>\<open>fields\<close> and
  \<^verbatim>\<open>options\<close> are left at their defaults, so the results come sorted by ancestry only.
\<close>

definition getChildrenTree ::
  "tree_options option \<Rightarrow> node option \<Rightarrow> tree_args \<Rightarrow> store \<Rightarrow> tree list outcome \<times> store" where
  "getChildrenTree options root args s =
     (case model_find (getChildrenTree_filters options root args) True s of
        (Some err, _, s') \<Rightarrow> (NextErr err, s')
      | (None, results, s') \<Rightarrow>
          (case build_results options (effective_minLevel options root args)
                  (case args_allowEmptyChildren args of None \<Rightarrow> True | Some b \<Rightarrow> b)
                  [] results of
             Inl e \<Rightarrow> (Thrown e, s')
           | Inr finalResults \<Rightarrow> (Next finalResults, s')))"

section \<open>A small forest used in the examples\<close>

text \<open>
  Separator \<^verbatim>\<open>/\<close>.  \<open>a\<close> and \<open>x\<close> are roots; \<open>b\<close> and \<open>s\<close> are children of \<open>a\<close>; \<open>c\<close> is the
  child of \<open>b\<close> and \<open>t\<close> the child of \<open>s\<close>.  Every ancestry is the one the pre-save hook
  computes for that parent.
\<close>

definition ex_A :: node where
  "ex_A = \<lparr>node_id = ''a'', parent = None, ancestry = None\<rparr>"

definition ex_B :: node where
  "ex_B = \<lparr>node_id = ''b'', parent = Some ''a'', ancestry = Some ''a''\<rparr>"

definition ex_C :: node where
  "ex_C = \<lparr>node_id = ''c'', parent = Some ''b'', ancestry = Some ''a/b''\<rparr>"

definition ex_S :: node where
  "ex_S = \<lparr>node_id = ''s'', parent = Some ''a'', ancestry = Some ''a''\<rparr>"

definition ex_T :: node where
  "ex_T = \<lparr>node_id = ''t'', parent = Some ''s'', ancestry = Some ''a/s''\<rparr>"

definition ex_X :: node where
  "ex_X = \<lparr>node_id = ''x'', parent = None, ancestry = None\<rparr>"

definition reliable :: "node list \<Rightarrow> store" where
  "reliable ds = \<lparr>docs = ds, faults = []\<rparr>"

definition reparent_options :: "tree_options option" where
  "reparent_options =
     Some \<lparr>opt_ancestrySeparator = None, opt_onDelete = Some ''REPARENT'',
           opt_numWorkers = None, opt_wrapChildrenTree = None\<rparr>"

section \<open>The anchored pattern is a prefix test\<close>

lemma parse_atoms_literal:
  "CHR ''['' \<notin> set p \<Longrightarrow> parse_atoms (p @ rest) = map Lit p @ parse_atoms rest"
  by (induction p) auto

lemma match_atoms_literal:
  "match_atoms (map Lit p @ as) s \<longleftrightarrow> prefix p s \<and> match_atoms as (drop (length p) s)"
proof (induction p arbitrary: s)
  case Nil
  show ?case by simp
next
  case (Cons x xs)
  show ?case by (cases s) (auto simp: Cons.IH)
qed

lemma regex_anchored_prefix:
  assumes "CHR ''['' \<notin> set p"
  shows "regex_test (''^'' @ p @ ''[/]'') s \<longleftrightarrow> prefix (p @ ''/'') s"
proof -
  have "parse_atoms (p @ ''[/]'') = map Lit p @ [Class ''/'']"
    using assms by (simp add: parse_atoms_literal)
  then have "regex_test (''^'' @ p @ ''[/]'') s \<longleftrightarrow>
      prefix p s \<and> match_atoms [Class ''/''] (drop (length p) s)"
    by (simp add: regex_test_def match_atoms_literal)
  also have "\<dots> \<longleftrightarrow> prefix (p @ ''/'') s"
  proof (cases "drop (length p) s")
    case Nil
    then show ?thesis by (auto simp: prefix_def)
  next
    case (Cons y ys)
    then show ?thesis
      by (auto simp: prefix_def append_eq_conv_conj)
  qed
  finally show ?thesis .
qed

section \<open>Properties of the tree assembler\<close>

lemma createChildren_top:
  assumes "createChildren minLevel ae (Some xs) nd level = Inr ys"
  shows "map tree_node ys = map tree_node xs @ (if level = minLevel then [nd] else [])"
proof (cases "level = minLevel")
  case True
  with assms show ?thesis by (subst (asm) createChildren.simps) auto
next
  case False
  show ?thesis
  proof (cases "xs = []")
    case True
    with False assms show ?thesis
      by (subst (asm) createChildren.simps) auto
  next
    case ne: False
    obtain n ch where l: "last xs = Tree n ch" by (cases "last xs") auto
    from assms False ne l obtain ch' where ys: "ys = butlast xs @ [Tree n (Some ch')]"
      by (subst (asm) createChildren.simps) (auto split: sum.splits)
    have "map tree_node xs = map tree_node (butlast xs @ [last xs])" using ne by simp
    also have "\<dots> = map tree_node (butlast xs) @ [n]" using l by simp
    finally show ?thesis using ys False by simp
  qed
qed

lemma build_results_top:
  assumes "build_results options minLevel ae acc rs = Inr fr"
    and "list_all (\<lambda>nd. getLevel options (ancestry nd) = minLevel) (map tree_node acc)"
  shows "list_all (\<lambda>nd. getLevel options (ancestry nd) = minLevel) (map tree_node fr)"
  using assms
proof (induction rs arbitrary: acc)
  case Nil
  then show ?case by simp
next
  case (Cons r rs)
  from Cons.prems(1) obtain acc' where
    c: "createChildren minLevel ae (Some acc) r (getLevel options (ancestry r)) = Inr acc'"
    and b: "build_results options minLevel ae acc' rs = Inr fr"
    by (auto split: sum.splits)
  from createChildren_top [OF c] Cons.prems(2)
  have "list_all (\<lambda>nd. getLevel options (ancestry nd) = minLevel) (map tree_node acc')"
    by (auto split: if_splits)
  from Cons.IH [OF b this] show ?case .
qed

lemma effective_minLevel_root:
  "effective_minLevel options (Some root) args =
     max (case args_minLevel args of None \<Rightarrow> 1 | Some m \<Rightarrow> if m = 0 then 1 else m)
         (getLevel options (ancestry root) + 1)"
  by (simp add: effective_minLevel_def Let_def max_def)

section \<open>Levels and the ancestry sort on well-formed identifiers\<close>

lemma split_from_no_sep:
  "c \<notin> set s \<Longrightarrow> split_from [c] cur s = [cur @ s]"
proof (induction s arbitrary: cur)
  case Nil
  show ?case by (subst split_from.simps) simp
next
  case (Cons x xs)
  then have "split_from [c] (cur @ [x]) xs = [(cur @ [x]) @ xs]" by simp
  with Cons.prems show ?case by (subst split_from.simps) auto
qed

lemma split_from_at_sep:
  "c \<notin> set a \<Longrightarrow> split_from [c] cur (a @ c # rest) = (cur @ a) # split_from [c] [] rest"
proof (induction a arbitrary: cur)
  case Nil
  show ?case by (subst split_from.simps) simp
next
  case (Cons x xs)
  then have "split_from [c] (cur @ [x]) (xs @ c # rest)
               = ((cur @ [x]) @ xs) # split_from [c] [] rest"
    by simp
  with Cons.prems show ?case by (subst split_from.simps) auto
qed

lemma getLevel_one:
  "a \<noteq> [] \<Longrightarrow> CHR ''/'' \<notin> set a \<Longrightarrow> getLevel None (Some a) = 1"
  by (simp add: getLevel_def truthy_def split_js_def ancestrySeparator_def split_from_no_sep)

lemma getLevel_two:
  "CHR ''/'' \<notin> set a \<Longrightarrow> CHR ''/'' \<notin> set b \<Longrightarrow>
     getLevel None (Some (a @ ''/'' @ b)) = 2"
  by (simp add: getLevel_def truthy_def split_js_def ancestrySeparator_def split_from_at_sep
      split_from_no_sep)

lemma less_append_Cons: "(a :: 'a :: linorder list) < a @ x # xs"
  by (induction a) simp_all

lemma map_eq_three:
  assumes "map f ys = [p, q, r]"
  shows "\<exists>y1 y2 y3. ys = [y1, y2, y3] \<and> f y1 = p \<and> f y2 = q \<and> f y3 = r"
  using assms by (auto simp: map_eq_Cons_conv)

lemma sort_key_three:
  fixes A B C :: node
  assumes "distinct ds" and "set ds = {A, B, C}"
    and "ancestry A < ancestry B" and "ancestry B < ancestry C"
  shows "sort_key ancestry ds = [A, B, C]"
proof -
  let ?ys = "sort_key ancestry ds"
  have inj: "inj_on ancestry {A, B, C}" using assms(3,4) by (auto simp: inj_on_def)
  have s: "set ?ys = {A, B, C}" using assms(2) by simp
  have d: "distinct ?ys" using assms(1) by simp
  have "sorted (map ancestry ?ys)" by (rule sorted_sort_key)
  moreover have "distinct (map ancestry ?ys)" using d inj s by (simp add: distinct_map)
  moreover have "sorted [ancestry A, ancestry B, ancestry C]" using assms(3,4) by auto
  moreover have "distinct [ancestry A, ancestry B, ancestry C]" using assms(3,4) by auto
  moreover have "set (map ancestry ?ys) = set [ancestry A, ancestry B, ancestry C]"
    using s by simp
  ultimately have m: "map ancestry ?ys = [ancestry A, ancestry B, ancestry C]"
    by (rule sorted_distinct_set_unique)
  from map_eq_three [OF m] obtain y1 y2 y3 where ys: "?ys = [y1, y2, y3]"
    and k: "ancestry y1 = ancestry A" "ancestry y2 = ancestry B" "ancestry y3 = ancestry C"
    by (elim exE conjE)
  have mem: "set [y1, y2, y3] = {A, B, C}" using s by (simp only: ys)
  have "y1 \<in> set [y1, y2, y3]" "y2 \<in> set [y1, y2, y3]" "y3 \<in> set [y1, y2, y3]"
    by simp_all
  then have in3: "y1 \<in> {A, B, C}" "y2 \<in> {A, B, C}" "y3 \<in> {A, B, C}"
    by (simp_all only: mem)
  have "y1 = A" using in3(1) k(1) assms(3,4) by auto
  moreover have "y2 = B" using in3(2) k(2) assms(3,4) by auto
  moreover have "y3 = C" using in3(3) k(3) assms(3,4) by auto
  ultimately show ?thesis by (simp only: ys)
qed

text \<open>
  What the default call returns for any root \<open>a\<close> with a child \<open>b\<close> and a grandchild \<open>c\<close>
  (a non-empty root id, and \<open>a\<close> and \<open>b\<close> free of the separator), whatever the order of
  the three documents in the collection: the root is not part of the forest.
\<close>

lemma getChildrenTree_three_nodes:
  fixes a b c :: string
  defines "A \<equiv> \<lparr>node_id = a, parent = None, ancestry = None\<rparr>"
    and "B \<equiv> \<lparr>node_id = b, parent = Some a, ancestry = Some a\<rparr>"
    and "C \<equiv> \<lparr>node_id = c, parent = Some b, ancestry = Some (a @ ''/'' @ b)\<rparr>"
  assumes ids: "a \<noteq> []" "CHR ''/'' \<notin> set a" "CHR ''/'' \<notin> set b"
    and coll: "distinct (docs s)" "set (docs s) = {A, B, C}" "faults s = []"
  shows "getChildrenTree None None default_args s
           = (Next [Tree B (Some [Tree C (Some [])])], s)"
proof -
  have lv: "getLevel None (ancestry A) = 0" "getLevel None (ancestry B) = 1"
    "getLevel None (ancestry C) = 2"
    using ids getLevel_one [of a] getLevel_two [of a b]
    by (simp_all add: A_def B_def C_def getLevel_def truthy_def)
  have "ancestry A < ancestry B" by (simp add: A_def B_def)
  moreover have "ancestry B < ancestry C" by (simp add: B_def C_def less_append_Cons)
  ultimately have srt: "sort_key ancestry (docs s) = [A, B, C]"
    using coll(1,2) by (rule sort_key_three [rotated 2])
  have flt: "getChildrenTree_filters None None default_args = []"
    by (simp add: getChildrenTree_filters_def default_args_def)
  have all: "filter (matches []) (docs s) = docs s"
    by (simp add: matches_def get_prop_def)
  have find: "model_find [] True s = (None, [A, B, C], s)"
    using coll(3) srt by (simp add: model_find_def take_fault_def all)
  have eff: "effective_minLevel None None default_args = 1"
    by (simp add: effective_minLevel_def default_args_def)
  have c1: "createChildren 1 True (Some []) A 0 = Inr []"
    by (subst createChildren.simps) simp
  have c2: "createChildren 1 True (Some []) B 1 = Inr [Tree B (Some [])]"
    by (subst createChildren.simps) simp
  have c3i: "createChildren 1 True (Some []) C 1 = Inr [Tree C (Some [])]"
    by (subst createChildren.simps) simp
  have c3: "createChildren 1 True (Some [Tree B (Some [])]) C 2
              = Inr [Tree B (Some [Tree C (Some [])])]"
    by (subst createChildren.simps) (simp add: c3i)
  have br: "build_results None 1 True [] [A, B, C] = Inr [Tree B (Some [Tree C (Some [])])]"
    by (simp add: lv c1 c2 c3)
  have ae: "args_allowEmptyChildren default_args = None" by (simp add: default_args_def)
  show ?thesis
    by (simp only: getChildrenTree_def flt find eff ae option.case prod.case br sum.case)
qed

text \<open>
  No call hands a document without ancestry to its callback as a top-level entry: the
  effective \<^verbatim>\<open>minLevel\<close> is at least 1 and such a document has level 0.
\<close>

lemma effective_minLevel_ge_one: "1 \<le> effective_minLevel options root args"
  by (auto simp: effective_minLevel_def Let_def getLevel_def split: option.splits)

lemma roots_never_emitted:
  assumes "getChildrenTree options root args s = (Next forest, s')"
  shows "list_all (\<lambda>t. truthy (ancestry (tree_node t))) forest"
proof -
  let ?ml = "effective_minLevel options root args"
  from assms obtain results ae where
    b: "build_results options ?ml ae [] results = Inr forest"
    by (auto simp: getChildrenTree_def split: prod.splits option.splits sum.splits)
  have "list_all (\<lambda>nd. getLevel options (ancestry nd) = ?ml) (map tree_node forest)"
    by (rule build_results_top [OF b]) simp
  then have "\<forall>t \<in> set forest. getLevel options (ancestry (tree_node t)) = ?ml"
    by (simp add: list_all_iff)
  moreover have "1 \<le> ?ml" by (rule effective_minLevel_ge_one)
  ultimately have "\<forall>t \<in> set forest. truthy (ancestry (tree_node t))"
    by (auto simp: getLevel_def split: if_splits)
  then show ?thesis by (simp add: list_all_iff)
qed

section \<open>The claims\<close>

text \<open>
  C1.  Cascade delete: removing a node under the \<^verbatim>\<open>DELETE\<close> policy should delete exactly
  the node's descendants, also when the node is a root.  The hook matches on the removed
  node's \<^emph>\<open>ancestry\<close> followed by the separator, not on its path, and returns at once for
  a node without ancestry.  Removing \<open>b\<close> from the forest \<open>a, b, c, s, t\<close> therefore also
  deletes \<open>t\<close>, the child of \<open>b\<close>'s sibling \<open>s\<close>; removing the root \<open>a\<close> of \<open>a, b, c\<close>
  deletes none of its descendants.
\<close>

theorem preRemove_cascade_wrong_subtree:
  "remove_node None ex_B (reliable [ex_A, ex_B, ex_C, ex_S, ex_T])
     = (Next (), reliable [ex_A, ex_S])
   \<and> remove_node None ex_A (reliable [ex_A, ex_B, ex_C])
     = (Next (), reliable [ex_B, ex_C])"
  by code_simp

text \<open>
  C2.  Reparenting: after a node's parent is changed and the node saved, its former
  descendants should carry the new prefix and every other node should be untouched, also
  when the node was a root.  The hook selects the documents whose ancestry starts with
  the node's \<^emph>\<open>previous ancestry\<close> and the separator.  Moving \<open>b\<close> from \<open>a\<close> to \<open>x\<close> rewrites
  \<open>c\<close> to \<^verbatim>\<open>x/b\<close> but also rewrites \<open>t\<close>, which is not below \<open>b\<close>, from \<^verbatim>\<open>a/s\<close> to \<^verbatim>\<open>x/s\<close>;
  moving the former root \<open>a\<close> under \<open>x\<close> leaves \<open>b\<close> and \<open>c\<close> with their old ancestry.
\<close>

theorem preSave_reparent_wrong_subtree:
  "save None False True (ex_B\<lparr>parent := Some ''x''\<rparr>)
       (reliable [ex_A, ex_B, ex_C, ex_S, ex_T, ex_X])
     = (Next (), ex_B\<lparr>parent := Some ''x'', ancestry := Some ''x''\<rparr>,
        reliable [ex_A, ex_B\<lparr>parent := Some ''x'', ancestry := Some ''x''\<rparr>,
                  ex_C\<lparr>ancestry := Some ''x/b''\<rparr>, ex_S,
                  ex_T\<lparr>ancestry := Some ''x/s''\<rparr>, ex_X])
   \<and> save None False True (ex_A\<lparr>parent := Some ''x''\<rparr>) (reliable [ex_A, ex_B, ex_C, ex_X])
     = (Next (), ex_A\<lparr>parent := Some ''x'', ancestry := Some ''x''\<rparr>,
        reliable [ex_A\<lparr>parent := Some ''x'', ancestry := Some ''x''\<rparr>, ex_B, ex_C, ex_X])"
  by code_simp

text \<open>
  C3.  Reparent on delete: removing a node under the \<^verbatim>\<open>REPARENT\<close> policy should give its
  direct children the removed node's parent and drop its id from deeper ancestries.  For
  a root the hook returns before either stage: removing \<open>a\<close> from \<open>a, b, c\<close> leaves \<open>b\<close>
  with parent \<open>a\<close> and \<open>c\<close> with ancestry \<^verbatim>\<open>a/b\<close>.
\<close>

theorem preRemove_reparent_skips_root:
  "remove_node reparent_options ex_A (reliable [ex_A, ex_B, ex_C])
     = (Next (), reliable [ex_B, ex_C])"
  by code_simp

text \<open>
  C4.  With the nodes \<open>a\<close> (root), \<open>b\<close> (child of \<open>a\<close>) and \<open>c\<close> (child of \<open>b\<close>) in the
  collection, \<^verbatim>\<open>getChildrenTree\<close> with default options should return the forest rooted
  at \<open>a\<close>.  A root has level 0 while \<^verbatim>\<open>minLevel\<close> and \<^verbatim>\<open>rootLevel\<close> are floored at 1, so
  the root is dropped: the result is the single entry \<open>b\<close> with the child \<open>c\<close>, not the
  claimed forest.  The non-recursive call without a root asks the store for exactly the
  roots (\<^verbatim>\<open>parent: null\<close>, line 518) and then drops every one of them.
\<close>

theorem getChildrenTree_default_drops_root:
  "getChildrenTree None None default_args (reliable [ex_A, ex_B, ex_C])
     = (Next [Tree ex_B (Some [Tree ex_C (Some [])])], reliable [ex_A, ex_B, ex_C])
   \<and> getChildrenTree None None default_args (reliable [ex_A, ex_B, ex_C])
     \<noteq> (Next [Tree ex_A (Some [Tree ex_B (Some [Tree ex_C (Some [])])])],
         reliable [ex_A, ex_B, ex_C])
   \<and> getChildrenTree_filters None None (default_args\<lparr>args_recursive := Some False\<rparr>)
     = [(''parent'', JNull)]
   \<and> getChildrenTree None None (default_args\<lparr>args_recursive := Some False\<rparr>)
       (reliable [ex_A, ex_B, ex_C])
     = (Next [], reliable [ex_A, ex_B, ex_C])"
  by code_simp

text \<open>
  C5.  \<^verbatim>\<open>getAncestors\<close> should query for every id of the ancestry, the direct parent
  included.  The code drops the last id of the split: for \<open>c\<close> with ancestry \<^verbatim>\<open>a/b\<close> the
  id list is \<open>[a]\<close>, without the parent \<open>b\<close>.
\<close>

theorem getAncestors_drops_parent:
  "getAncestors_ids None ex_C = [''a'']
   \<and> getAncestors_filters None ex_C None = [(''_id'', JObj [(''$in'', JArr [JStr ''a''])])]"
  by code_simp

text \<open>
  C6.  A parent id that resolves to no document should abort the save through the
  completion callback.  The hook reads \<^verbatim>\<open>doc.ancestry\<close> of the missing document: saving a
  new node whose parent \<open>p\<close> is not in the collection raises a \<^verbatim>\<open>TypeError\<close> and the
  callback is never invoked.
\<close>

theorem preSave_missing_parent_throws:
  "preSave None True False \<lparr>node_id = ''n'', parent = Some ''p'', ancestry = None\<rparr>
       (reliable [ex_A])
     = (Thrown TypeError, \<lparr>node_id = ''n'', parent = Some ''p'', ancestry = None\<rparr>,
        reliable [ex_A])"
  by code_simp

text \<open>
  C7.  A node without a parent should have an empty ancestry and level 0 after a save,
  also when its parent was just cleared.  The hook returns without touching the
  ancestry: \<open>b\<close>, saved with its parent cleared, keeps ancestry \<^verbatim>\<open>a\<close> and level 1.
\<close>

theorem preSave_cleared_parent_keeps_ancestry:
  "save None False True (ex_B\<lparr>parent := None\<rparr>) (reliable [ex_A, ex_B, ex_C])
     = (Next (), ex_B\<lparr>parent := None\<rparr>, reliable [ex_A, ex_B\<lparr>parent := None\<rparr>, ex_C])
   \<and> ancestry (ex_B\<lparr>parent := None\<rparr>) = Some ''a''
   \<and> virtualPropLevel None (ex_B\<lparr>parent := None\<rparr>) = 1"
  by code_simp

text \<open>
  C8.  Every error of the \<^verbatim>\<open>REPARENT\<close> pipeline should reach the completion callback.
  The callback of the second stage's \<^verbatim>\<open>find\<close> ignores its error argument and calls
  \<^verbatim>\<open>cursor.stream()\<close>: when that \<^verbatim>\<open>find\<close> fails (third store call here, after the first
  stage's \<^verbatim>\<open>find\<close> and its one update), a \<^verbatim>\<open>TypeError\<close> is raised and the callback is
  never invoked.
\<close>

theorem streamOnClose_swallows_find_error:
  "preRemove reparent_options ex_B
       \<lparr>docs = [ex_A, ex_B, ex_C], faults = [None, None, Some (StoreError ''down'')]\<rparr>
     = (Thrown TypeError,
        \<lparr>docs = [ex_A, ex_B, ex_C\<lparr>parent := Some ''a''\<rparr>], faults = []\<rparr>)"
  by code_simp

text \<open>
  C9.  \<^verbatim>\<open>getChildren\<close> with \<^verbatim>\<open>recursive = true\<close> should select the node's own subtree.
  The ancestry clause is built from the node's ancestry, not from its path: for \<open>b\<close> the
  pattern is \<^verbatim>\<open>^a[/]\<close>, which also selects \<open>t\<close> below the sibling \<open>s\<close>; for the root \<open>a\<close> it
  is \<^verbatim>\<open>^undefined[/]\<close>, which selects nothing.
\<close>

theorem getChildren_recursive_wrong_prefix:
  "getChildren_filters None ex_B None (Some True)
     = [(''ancestry'', JObj [(''$regex'', JStr ''^a[/]'')])]
   \<and> getChildren None ex_B None (Some True) (reliable [ex_A, ex_B, ex_C, ex_S, ex_T])
     = (Next [ex_C, ex_T], reliable [ex_A, ex_B, ex_C, ex_S, ex_T])
   \<and> getChildren_filters None ex_A None (Some True)
     = [(''ancestry'', JObj [(''$regex'', JStr ''^undefined[/]'')])]
   \<and> getChildren None ex_A None (Some True) (reliable [ex_A, ex_B, ex_C, ex_S, ex_T])
     = (Next [], reliable [ex_A, ex_B, ex_C, ex_S, ex_T])"
  by code_simp

text \<open>
  C10.  Whenever \<^verbatim>\<open>getChildrenTree\<close> is called with a root document and hands a forest to
  its callback, the effective \<^verbatim>\<open>minLevel\<close> is the larger of the caller's value (default
  1) and the root's level plus one, every top-level entry of the forest lies exactly at
  that level, and so no top-level entry is at or above the root's own level.
\<close>

theorem getChildrenTree_root_minLevel:
  assumes "getChildrenTree options (Some root) args s = (Next forest, s')"
  shows "effective_minLevel options (Some root) args =
           max (case args_minLevel args of None \<Rightarrow> 1 | Some m \<Rightarrow> if m = 0 then 1 else m)
               (getLevel options (ancestry root) + 1)
         \<and> (\<forall>t \<in> set forest.
               getLevel options (ancestry (tree_node t)) =
                 effective_minLevel options (Some root) args
               \<and> getLevel options (ancestry root) < getLevel options (ancestry (tree_node t)))"
proof -
  let ?ml = "effective_minLevel options (Some root) args"
  have eff: "?ml =
      max (case args_minLevel args of None \<Rightarrow> 1 | Some m \<Rightarrow> if m = 0 then 1 else m)
          (getLevel options (ancestry root) + 1)"
    by (rule effective_minLevel_root)
  from assms obtain results ae where
    b: "build_results options ?ml ae [] results = Inr forest"
    by (auto simp: getChildrenTree_def split: prod.splits option.splits sum.splits)
  have "list_all (\<lambda>nd. getLevel options (ancestry nd) = ?ml) (map tree_node forest)"
    by (rule build_results_top [OF b]) simp
  then have top: "\<forall>t \<in> set forest. getLevel options (ancestry (tree_node t)) = ?ml"
    by (simp add: list_all_iff)
  have "getLevel options (ancestry root) < ?ml" using eff by simp
  with top eff show ?thesis by simp
qed

theorem getChildrenTree_root_minLevel_witness:
  "getChildrenTree None (Some ex_B) default_args (reliable [ex_C, ex_A, ex_B])
     = (Next [Tree ex_C (Some [])], reliable [ex_C, ex_A, ex_B])
   \<and> effective_minLevel None (Some ex_B) default_args = 2
   \<and> getLevel None (ancestry ex_B) = 1
   \<and> getLevel None (ancestry (tree_node (Tree ex_C (Some [])))) = 2"
proof -
  have run: "getChildrenTree None (Some ex_B) default_args (reliable [ex_C, ex_A, ex_B])
     = (Next [Tree ex_C (Some [])], reliable [ex_C, ex_A, ex_B])"
    by code_simp
  have lb: "getLevel None (ancestry ex_B) = 1" by code_simp
  from getChildrenTree_root_minLevel [OF run] lb
  have "effective_minLevel None (Some ex_B) default_args = 2"
    and "getLevel None (ancestry (tree_node (Tree ex_C (Some [])))) = 2"
    by (simp_all add: default_args_def)
  with run lb show ?thesis by simp
qed

end
